theory Spec2Isabelle
  imports Main "HOL-Library.Sublist" "HOL-Library.Word"
begin

section \<open>Dangling Container Checker: the reconciliation engine of main.go\<close>

subsection \<open>Strings\<close>

text \<open>
  Go strings are byte sequences, here \<^typ>\<open>string\<close>. The program uses three functions
  of Go's \<^verbatim>\<open>strings\<close> package. They belong to the standard library, so they are
  written here as executable functions by their documented meaning and related to
  the list notions \<^const>\<open>prefix\<close> and \<^const>\<open>sublist\<close> below.
\<close>

text \<open>\<^verbatim>\<open>strings.HasPrefix(s, prefix)\<close>: \<^verbatim>\<open>s\<close> begins with \<^verbatim>\<open>prefix\<close>.\<close>

fun HasPrefix :: "string \<Rightarrow> string \<Rightarrow> bool" where
  "HasPrefix s [] = True"
| "HasPrefix [] (p # ps) = False"
| "HasPrefix (c # s) (p # ps) = (c = p \<and> HasPrefix s ps)"

text \<open>\<^verbatim>\<open>strings.Contains(s, substr)\<close>: \<^verbatim>\<open>substr\<close> occurs within \<^verbatim>\<open>s\<close>.\<close>

fun Contains :: "string \<Rightarrow> string \<Rightarrow> bool" where
  "Contains [] substr = (substr = [])"
| "Contains (c # s) substr = (HasPrefix (c # s) substr \<or> Contains s substr)"

text \<open>\<^verbatim>\<open>strings.TrimPrefix(s, prefix)\<close>: \<^verbatim>\<open>s\<close> without the leading \<^verbatim>\<open>prefix\<close>, or
  \<^verbatim>\<open>s\<close> itself when it does not begin with it.\<close>

definition TrimPrefix :: "string \<Rightarrow> string \<Rightarrow> string" where
  "TrimPrefix s p = (if HasPrefix s p then drop (length p) s else s)"

subsection \<open>Data\<close>

text \<open>
  \<^verbatim>\<open>types.Container\<close> of the Docker API, with the fields the program reads. The
  creation time is Unix seconds (\<^verbatim>\<open>int64\<close>); the program only hands it to the clock.
\<close>

record Container =
  ID :: string
  Image :: string
  ImageID :: string
  Created :: int

text \<open>
  Everything the program does besides computing values, in the order it does it: the
  lines it logs (one constructor per \<^verbatim>\<open>log.Println\<close> call site, carrying the values
  printed), the stop calls it issues to the runtime (identifier, timeout, a
  \<^verbatim>\<open>time.Duration\<close>, that is an \<^verbatim>\<open>int64\<close> of nanoseconds, and the error the
  runtime answers, \<open>None\<close> for \<^verbatim>\<open>nil\<close>), the messages it sends on the notification
  channel, each of which the draining goroutine of \<^verbatim>\<open>executeCheck\<close> publishes with
  \<^verbatim>\<open>sendEvent("DanglingContainer", msg)\<close>, and the sleep between passes.
\<close>

datatype effect =
    LogOrphanFound string string int
  | LogNoOrphans
  | LogCannotConnect string
  | LogNoRunning string
  | LogListPods string
  | LogStopping Container
  | LogObserving Container
  | CallContainerStop string "64 word" "string option"
  | Send string
  | Sleep "64 word"

subsection \<open>The reconciler\<close>

text \<open>\<^verbatim>\<open>stringInSlice\<close>: the first element \<^verbatim>\<open>b\<close> of the list with
  \<^verbatim>\<open>strings.Contains(b, a)\<close> ends the loop with \<^verbatim>\<open>true\<close>.\<close>

fun stringInSlice :: "string \<Rightarrow> string list \<Rightarrow> bool" where
  "stringInSlice a [] = False"
| "stringInSlice a (b # list) = (if Contains b a then True else stringInSlice a list)"

text \<open>
  \<^verbatim>\<open>compareContainerGroups\<close>. The loop appends to \<^verbatim>\<open>orphansFound\<close> and logs one line
  per orphan; the accumulator pair is (log so far, orphans so far). The age printed
  in the log line is \<^verbatim>\<open>time.Since(time.Unix(container.Created, 0))\<close>: the clock is
  the parameter \<open>since\<close>, from a creation time to the age read when the line is
  printed.
\<close>

fun compareLoop ::
  "(int \<Rightarrow> int) \<Rightarrow> Container list \<Rightarrow> string list \<Rightarrow> effect list \<times> Container list
    \<Rightarrow> effect list \<times> Container list" where
  "compareLoop since [] kubernetesGroup acc = acc"
| "compareLoop since (container # dockerGroup) kubernetesGroup (lg, orphansFound) =
     (if \<not> stringInSlice (ID container) kubernetesGroup
      then compareLoop since dockerGroup kubernetesGroup
             (lg @ [LogOrphanFound (ID container) (Image container) (since (Created container))],
              orphansFound @ [container])
      else compareLoop since dockerGroup kubernetesGroup (lg, orphansFound))"

definition compareContainerGroups ::
  "(int \<Rightarrow> int) \<Rightarrow> Container list \<Rightarrow> string list \<Rightarrow> effect list \<times> Container list" where
  "compareContainerGroups since dockerGroup kubernetesGroup =
     compareLoop since dockerGroup kubernetesGroup ([], [])"

text \<open>The orphan set of the specification: the value \<^verbatim>\<open>compareContainerGroups\<close> returns.\<close>

definition orphansOf :: "(int \<Rightarrow> int) \<Rightarrow> Container list \<Rightarrow> string list \<Rightarrow> Container list" where
  "orphansOf since R K = snd (compareContainerGroups since R K)"

subsection \<open>Configuration and the outside world\<close>

record Timing =
  CheckInterval :: "32 word"
  StopTimeout :: "32 word"

record Whitelist =
  Images :: "string list"

record Config =
  Timing :: Timing
  Whitelist :: Whitelist

text \<open>\<^verbatim>\<open>time.Second\<close>, a \<^verbatim>\<open>time.Duration\<close> in nanoseconds.\<close>

definition Second :: "64 word" where
  "Second = 1000000000"

text \<open>
  A call through a \<^verbatim>\<open>nil\<close> pointer that reads the pointee is a run-time panic, which
  ends the process whichever goroutine it happens in.
\<close>

datatype 'a outcome = Return 'a | Panic

text \<open>
  The Docker client as the program uses it: what \<^verbatim>\<open>ContainerList\<close> answers
  (containers and error) and, for each identifier, the error \<^verbatim>\<open>ContainerStop\<close>
  answers. \<^verbatim>\<open>docker.NewEnvClient()\<close> yields a client pointer (\<open>None\<close> for
  \<^verbatim>\<open>nil\<close>) and an error.
\<close>

record DockerClient =
  ContainerList :: "Container list \<times> string option"
  ContainerStop :: "string \<Rightarrow> string option"

type_synonym NewEnvClient = "DockerClient option \<times> string option"

text \<open>
  A pod as the program reads it: \<^verbatim>\<open>pod.Spec.NodeName\<close> and the \<^verbatim>\<open>ContainerID\<close> of
  each entry of \<^verbatim>\<open>pod.Status.ContainerStatuses\<close>. The pods call yields a pointer to
  a pod list (\<open>None\<close> for \<^verbatim>\<open>nil\<close>, otherwise its \<^verbatim>\<open>Items\<close>) and an error.
\<close>

record Pod =
  NodeName :: string
  ContainerStatuses :: "string list"

type_synonym PodsList = "Pod list option \<times> string option"

text \<open>What the collaborators answer during one pass, and the clock of that pass.\<close>

record PassEnv =
  podsList :: PodsList
  fetchClient :: NewEnvClient
  dispatchClient :: NewEnvClient
  clock :: "int \<Rightarrow> int"

subsection \<open>The runtime inventory fetcher\<close>

text \<open>The inner loop of \<^verbatim>\<open>getDockerContainers\<close> over \<^verbatim>\<open>config.Whitelist.Images\<close>: it
  sets \<^verbatim>\<open>remove\<close> and does not leave the loop early.\<close>

fun removeLoop :: "string list \<Rightarrow> Container \<Rightarrow> bool \<Rightarrow> bool" where
  "removeLoop [] c remove = remove"
| "removeLoop (img # images) c remove =
     removeLoop images c (if Contains (Image c) img then True else remove)"

fun filterLoop :: "string list \<Rightarrow> Container list \<Rightarrow> Container list \<Rightarrow> Container list" where
  "filterLoop images [] filtered = filtered"
| "filterLoop images (c # containers) filtered =
     (let remove = removeLoop images c False
      in filterLoop images containers (if \<not> remove then filtered @ [c] else filtered))"

text \<open>
  \<^verbatim>\<open>getDockerContainers\<close>: both errors are logged and the function goes on. The value
  is what it sends on \<^verbatim>\<open>listChannel\<close>.
\<close>

definition getDockerContainers ::
  "Config \<Rightarrow> NewEnvClient \<Rightarrow> effect list \<times> Container list outcome" where
  "getDockerContainers config new =
     (case new of (cli, err) \<Rightarrow>
        let lg = (case err of Some e \<Rightarrow> [LogCannotConnect e] | None \<Rightarrow> [])
        in (case cli of
              None \<Rightarrow> (lg, Panic)
            | Some client \<Rightarrow>
                (case ContainerList client of (containers, err') \<Rightarrow>
                   (lg @ (case err' of Some e \<Rightarrow> [LogNoRunning e] | None \<Rightarrow> []),
                    Return (filterLoop (Images (Whitelist config)) containers [])))))"

subsection \<open>The orchestrator inventory fetcher\<close>

fun statusLoop :: "string list \<Rightarrow> string list \<Rightarrow> string list" where
  "statusLoop [] containerIDs = containerIDs"
| "statusLoop (status # statuses) containerIDs =
     statusLoop statuses (containerIDs @ [TrimPrefix status ''docker://''])"

fun podLoop :: "string \<Rightarrow> Pod list \<Rightarrow> string list \<Rightarrow> string list" where
  "podLoop nodeFlag [] containerIDs = containerIDs"
| "podLoop nodeFlag (pod # pods) containerIDs =
     podLoop nodeFlag pods
       (if NodeName pod = nodeFlag then statusLoop (ContainerStatuses pod) containerIDs
        else containerIDs)"

text \<open>\<^verbatim>\<open>getPodContainers\<close>: the error is logged and \<^verbatim>\<open>podList.Items\<close> is read whatever
  the error was. The value is what it sends on \<^verbatim>\<open>k8sChannel\<close>.\<close>

definition getPodContainers ::
  "string \<Rightarrow> PodsList \<Rightarrow> effect list \<times> string list outcome" where
  "getPodContainers nodeFlag answer =
     (case answer of (podList, err) \<Rightarrow>
        let lg = (case err of Some e \<Rightarrow> [LogListPods e] | None \<Rightarrow> [])
        in (case podList of
              None \<Rightarrow> (lg, Panic)
            | Some items \<Rightarrow> (lg, Return (podLoop nodeFlag items []))))"

subsection \<open>The action dispatcher\<close>

text \<open>The two messages built with \<^verbatim>\<open>fmt.Sprintf\<close>.\<close>

definition stoppedMessage :: "Container \<Rightarrow> string" where
  "stoppedMessage c = ''Dangling container stopped: '' @ ID c @ '' ('' @ ImageID c @ '')''"

definition foundMessage :: "Container \<Rightarrow> string" where
  "foundMessage c = ''Dangling container found: '' @ ID c @ '' ('' @ ImageID c @ '')''"

text \<open>
  The loop of \<^verbatim>\<open>removeOrReportOrphanContainers\<close> over the orphans, with the effects
  so far as accumulator. The error \<^verbatim>\<open>cli.ContainerStop\<close> answers is dropped by the
  program; the model keeps it in the recorded call.
\<close>

fun dispatchLoop ::
  "string \<Rightarrow> DockerClient option \<Rightarrow> 64 word \<Rightarrow> Container list \<Rightarrow> effect list
    \<Rightarrow> effect list \<times> unit outcome" where
  "dispatchLoop modeFlag cli stopTimeout [] tr = (tr, Return ())"
| "dispatchLoop modeFlag cli stopTimeout (c # orphans) tr =
     (if modeFlag = ''remove'' then
        (case cli of
           None \<Rightarrow> (tr @ [LogStopping c], Panic)
         | Some client \<Rightarrow>
             dispatchLoop modeFlag cli stopTimeout orphans
               (tr @ [LogStopping c,
                      CallContainerStop (ID c) stopTimeout (ContainerStop client (ID c)),
                      Send (stoppedMessage c)]))
      else
        dispatchLoop modeFlag cli stopTimeout orphans
          (tr @ [LogObserving c, Send (foundMessage c)]))"

definition removeOrReportOrphanContainers ::
  "string \<Rightarrow> Config \<Rightarrow> NewEnvClient \<Rightarrow> Container list \<Rightarrow> effect list \<times> unit outcome" where
  "removeOrReportOrphanContainers modeFlag config new orphans =
     (case new of (cli, err) \<Rightarrow>
        let lg = (case err of Some e \<Rightarrow> [LogCannotConnect e] | None \<Rightarrow> []);
            stopTimeout = ucast (StopTimeout (Timing config)) * Second
        in dispatchLoop modeFlag cli stopTimeout orphans lg)"

text \<open>The stop calls and the notification messages of a sequence of effects.\<close>

fun stopCalls :: "effect list \<Rightarrow> (string \<times> 64 word) list" where
  "stopCalls [] = []"
| "stopCalls (CallContainerStop i t r # es) = (i, t) # stopCalls es"
| "stopCalls (e # es) = stopCalls es"

fun sent :: "effect list \<Rightarrow> string list" where
  "sent [] = []"
| "sent (Send m # es) = m # sent es"
| "sent (e # es) = sent es"

subsection \<open>One pass and the scheduler\<close>

text \<open>
  \<^verbatim>\<open>executeCheck\<close>. The two fetchers run as goroutines and the pass waits for both
  values; the model lists the log lines of the pods fetcher first (the program fixes
  no order between the two). A panic in either fetcher ends the process.
\<close>

definition executeCheck ::
  "string \<Rightarrow> string \<Rightarrow> Config \<Rightarrow> PassEnv \<Rightarrow> effect list \<times> unit outcome" where
  "executeCheck modeFlag nodeFlag config env =
     (case getPodContainers nodeFlag (podsList env) of (lgK, rK) \<Rightarrow>
     (case getDockerContainers config (fetchClient env) of (lgD, rD) \<Rightarrow>
        (case rK of
           Panic \<Rightarrow> (lgK @ lgD, Panic)
         | Return kubernetesContainers \<Rightarrow>
             (case rD of
                Panic \<Rightarrow> (lgK @ lgD, Panic)
              | Return dockerContainers \<Rightarrow>
                  (case compareContainerGroups (clock env) dockerContainers kubernetesContainers of
                     (lgC, orphans) \<Rightarrow>
                       if length orphans > 0 then
                         (case removeOrReportOrphanContainers modeFlag config
                                 (dispatchClient env) orphans of
                            (lgR, r) \<Rightarrow> (lgK @ lgD @ lgC @ lgR, r))
                       else (lgK @ lgD @ lgC @ [LogNoOrphans], Return ()))))))"

text \<open>
  \<^verbatim>\<open>main\<close> loops for ever: a pass, then a sleep of \<^verbatim>\<open>check_interval\<close> seconds. The
  model runs it along a finite list of pass environments, one pass each: \<open>Return ()\<close>
  says the process is alive after the last of them (it has slept and is about to
  start the next pass), \<open>Panic\<close> that it died in one.
\<close>

fun main :: "string \<Rightarrow> string \<Rightarrow> Config \<Rightarrow> PassEnv list \<Rightarrow> effect list \<times> unit outcome" where
  "main modeFlag nodeFlag config [] = ([], Return ())"
| "main modeFlag nodeFlag config (env # envs) =
     (case executeCheck modeFlag nodeFlag config env of
        (tr, Panic) \<Rightarrow> (tr, Panic)
      | (tr, Return u) \<Rightarrow>
          (case main modeFlag nodeFlag config envs of
             (tr', r) \<Rightarrow>
               (tr @ [Sleep (ucast (CheckInterval (Timing config)) * Second)] @ tr', r)))"


subsection \<open>Scenarios\<close>

text \<open>The in-process default of \<^verbatim>\<open>config\<close>, and the same with one whitelist rule.\<close>

definition defaultConfig :: Config where
  "defaultConfig =
     \<lparr>Timing = \<lparr>CheckInterval = 90, StopTimeout = 30\<rparr>, Whitelist = \<lparr>Images = []\<rparr>\<rparr>"

definition pauseConfig :: Config where
  "pauseConfig = defaultConfig\<lparr>Whitelist := \<lparr>Images = [''pause-amd64'']\<rparr>\<rparr>"

text \<open>The containers of the specification's scenarios, and one with an empty identifier.\<close>

definition abc123 :: Container where
  "abc123 = \<lparr>ID = ''abc123'', Image = ''nginx'', ImageID = ''sha256:0a'', Created = 0\<rparr>"

definition def456 :: Container where
  "def456 = \<lparr>ID = ''def456'', Image = ''redis'', ImageID = ''sha256:1b'', Created = 0\<rparr>"

definition pause :: Container where
  "pause = \<lparr>ID = ''abc123'', Image = ''gcr.io/google_containers/pause-amd64'',
             ImageID = ''sha256:2c'', Created = 0\<rparr>"

definition unnamed :: Container where
  "unnamed = \<lparr>ID = [], Image = ''nginx'', ImageID = ''sha256:0a'', Created = 0\<rparr>"

text \<open>A Docker daemon that lists the given containers and stops every container it is
  asked to, and one whose every stop call fails.\<close>

definition daemon :: "Container list \<Rightarrow> DockerClient" where
  "daemon containers = \<lparr>ContainerList = (containers, None), ContainerStop = (\<lambda>i. None)\<rparr>"

definition stubbornDaemon :: "Container list \<Rightarrow> DockerClient" where
  "stubbornDaemon containers =
     \<lparr>ContainerList = (containers, None), ContainerStop = (\<lambda>i. Some ''cannot stop'')\<rparr>"

text \<open>
  A pass in which the pods call fails, answering an allocated empty pod list with its
  error as the typed client does, while the runtime lists the container
  \<^verbatim>\<open>abc123\<close>.
\<close>

definition podsDown :: PassEnv where
  "podsDown =
     \<lparr>podsList = (Some [], Some ''connection refused''),
      fetchClient = (Some (daemon [abc123]), None),
      dispatchClient = (Some (daemon [abc123]), None),
      clock = id\<rparr>"

text \<open>
  A pass in which the runtime's list call fails while the orchestrator knows the
  container \<^verbatim>\<open>abc123\<close> on the node, and the pass \<open>podsDown\<close> with the pods call
  answering.
\<close>

definition dockerDown :: PassEnv where
  "dockerDown =
     \<lparr>podsList = (Some [\<lparr>NodeName = ''node1'', ContainerStatuses = [''docker://abc123'']\<rparr>], None),
      fetchClient = (Some \<lparr>ContainerList = ([], Some ''daemon down''),
                            ContainerStop = (\<lambda>i. None)\<rparr>, None),
      dispatchClient = (Some (daemon []), None),
      clock = id\<rparr>"

definition podsUp :: PassEnv where
  "podsUp =
     podsDown\<lparr>podsList :=
       (Some [\<lparr>NodeName = ''node1'', ContainerStatuses = [''docker://abc123'']\<rparr>], None)\<rparr>"

section \<open>Properties\<close>

subsection \<open>Strings\<close>

lemma HasPrefix_iff_prefix: "HasPrefix s p \<longleftrightarrow> prefix p s"
  by (induction s p rule: HasPrefix.induct) auto

lemma Contains_iff_sublist: "Contains s substr \<longleftrightarrow> sublist substr s"
  by (induction s) (simp_all add: HasPrefix_iff_prefix sublist_Cons_right)

lemma Contains_empty: "Contains s []"
  by (simp add: Contains_iff_sublist)

lemma stringInSlice_iff: "stringInSlice a list \<longleftrightarrow> (\<exists>b \<in> set list. Contains b a)"
  by (induction list) auto

subsection \<open>The reconciler\<close>

lemma compareLoop_snd:
  "snd (compareLoop since R K (lg, acc)) = acc @ filter (\<lambda>c. \<not> stringInSlice (ID c) K) R"
  by (induction R arbitrary: lg acc) simp_all

lemma orphansOf_filter: "orphansOf since R K = filter (\<lambda>c. \<not> stringInSlice (ID c) K) R"
  by (simp add: orphansOf_def compareContainerGroups_def compareLoop_snd)

subsection \<open>The fetchers and the dispatcher\<close>

lemma removeLoop_iff:
  "removeLoop images c remove \<longleftrightarrow> remove \<or> (\<exists>img \<in> set images. Contains (Image c) img)"
  by (induction images arbitrary: remove) auto

lemma filterLoop_filter:
  "filterLoop images containers filtered =
     filtered @ filter (\<lambda>c. \<not> (\<exists>img \<in> set images. Contains (Image c) img)) containers"
  by (induction containers arbitrary: filtered) (simp_all add: removeLoop_iff)

lemma stopCalls_append: "stopCalls (xs @ ys) = stopCalls xs @ stopCalls ys"
  by (induction xs rule: stopCalls.induct) simp_all

lemma sent_append: "sent (xs @ ys) = sent xs @ sent ys"
  by (induction xs rule: sent.induct) simp_all

lemma dispatchLoop_report:
  "modeFlag \<noteq> ''remove'' \<Longrightarrow>
     dispatchLoop modeFlag cli stopTimeout orphans tr =
       (tr @ concat (map (\<lambda>c. [LogObserving c, Send (foundMessage c)]) orphans), Return ())"
  by (induction orphans arbitrary: tr) simp_all

lemma dispatchLoop_remove:
  "dispatchLoop ''remove'' (Some client) stopTimeout orphans tr =
     (tr @ concat (map (\<lambda>c. [LogStopping c,
                              CallContainerStop (ID c) stopTimeout (ContainerStop client (ID c)),
                              Send (stoppedMessage c)]) orphans), Return ())"
  by (induction orphans arbitrary: tr) simp_all

lemma stopCalls_report: "stopCalls (concat (map (\<lambda>c. [LogObserving c, Send (f c)]) orphans)) = []"
  by (induction orphans) simp_all

lemma sent_report: "sent (concat (map (\<lambda>c. [LogObserving c, Send (f c)]) orphans)) = map f orphans"
  by (induction orphans) simp_all

lemma stopCalls_remove:
  "stopCalls (concat (map (\<lambda>c. [LogStopping c, CallContainerStop (ID c) t (r c), Send (f c)]) orphans))
     = map (\<lambda>c. (ID c, t)) orphans"
  by (induction orphans) simp_all

lemma sent_remove:
  "sent (concat (map (\<lambda>c. [LogStopping c, CallContainerStop (ID c) t (r c), Send (f c)]) orphans))
     = map f orphans"
  by (induction orphans) simp_all

lemma connectLog_quiet:
  "stopCalls (case err of Some e \<Rightarrow> [LogCannotConnect e] | None \<Rightarrow> []) = []"
  "sent (case err of Some e \<Rightarrow> [LogCannotConnect e] | None \<Rightarrow> []) = []"
  by (simp_all split: option.split)

subsection \<open>The stop timeout\<close>

lemma uint_ucast_32_64: "uint (ucast (w :: 32 word) :: 64 word) = uint w"
  by (simp add: uint_up_ucast is_up)

lemma uint_Second: "uint Second = 1000000000"
  by (simp add: Second_def)

lemma seconds_bound: "uint (w :: 32 word) * 1000000000 < 2 ^ 63"
proof -
  have "uint w < 2 ^ 32" using uint_lt2p [of w] by simp
  then show ?thesis by simp
qed

lemma uint_seconds: "uint ((ucast (w :: 32 word) :: 64 word) * Second) = uint w * 1000000000"
proof -
  have "uint (ucast w :: 64 word) * uint Second < 2 ^ LENGTH(64)"
    using seconds_bound [of w] by (simp add: uint_ucast_32_64 uint_Second)
  then have "uint ((ucast w :: 64 word) * Second) = uint (ucast w :: 64 word) * uint Second"
    by (simp only: uint_mult_lem)
  then show ?thesis by (simp add: uint_ucast_32_64 uint_Second)
qed

lemma sint_seconds: "sint ((ucast (w :: 32 word) :: 64 word) * Second) = uint w * 1000000000"
proof -
  have "sint ((ucast w :: 64 word) * Second) = signed_take_bit 63 (uint w * 1000000000)"
    by (simp add: sint_uint uint_seconds)
  also have "\<dots> = uint w * 1000000000"
  proof (rule signed_take_bit_int_eq_self)
    have "- (2 ^ 63) \<le> (0::int)" by simp
    also have "(0::int) \<le> uint w * 1000000000" by simp
    finally show "- (2 ^ 63) \<le> uint w * 1000000000" .
    show "uint w * 1000000000 < 2 ^ 63" by (rule seconds_bound)
  qed
  finally show ?thesis .
qed

subsection \<open>One pass\<close>

lemma compareLoop_eq:
  "compareLoop since R K (lg, acc) =
     (lg @ map (\<lambda>c. LogOrphanFound (ID c) (Image c) (since (Created c)))
             (filter (\<lambda>c. \<not> stringInSlice (ID c) K) R),
      acc @ filter (\<lambda>c. \<not> stringInSlice (ID c) K) R)"
  by (induction R arbitrary: lg acc) simp_all

lemma compareContainerGroups_eq:
  "compareContainerGroups since R K =
     (map (\<lambda>c. LogOrphanFound (ID c) (Image c) (since (Created c))) (orphansOf since R K),
      orphansOf since R K)"
  by (simp add: orphansOf_def compareContainerGroups_def compareLoop_eq)

lemma orphansOf_no_identifiers: "orphansOf since R [] = R"
  by (simp add: orphansOf_filter)

lemma main_step:
  assumes "snd (executeCheck modeFlag nodeFlag config env) = Return ()"
  shows "main modeFlag nodeFlag config (env # envs) =
           (fst (executeCheck modeFlag nodeFlag config env)
              @ [Sleep (ucast (CheckInterval (Timing config)) * Second)]
              @ fst (main modeFlag nodeFlag config envs),
            snd (main modeFlag nodeFlag config envs))"
proof (cases "executeCheck modeFlag nodeFlag config env")
  case (Pair tr r)
  with assms have "r = Return ()" by simp
  with Pair show ?thesis by (simp split: prod.splits)
qed

subsection \<open>The scenarios of the specification\<close>

lemma scenario_A: "orphansOf id [abc123] [] = [abc123]"
  by (simp add: orphansOf_filter)

lemma scenario_B:
  "getDockerContainers pauseConfig (Some (daemon [pause]), None) = ([], Return [])
   \<and> orphansOf id [] [] = []"
  by (simp add: getDockerContainers_def daemon_def pauseConfig_def defaultConfig_def pause_def
      orphansOf_filter)

lemma scenario_C: "orphansOf id [abc123] [''abc123''] = []"
  by (simp add: orphansOf_filter abc123_def)

lemma scenario_D: "orphansOf id [abc123, def456] [''abc123''] = [def456]"
  by (simp add: orphansOf_filter abc123_def def456_def)

text \<open>A stop call that fails is reported like one that succeeds; and with no client at
  hand the first stop call of \<^verbatim>\<open>remove\<close> mode is a panic.\<close>

lemma failed_stop_reported:
  "removeOrReportOrphanContainers ''remove'' defaultConfig (Some (stubbornDaemon []), None) [abc123] =
     ([LogStopping abc123, CallContainerStop ''abc123'' 30000000000 (Some ''cannot stop''),
       Send ''Dangling container stopped: abc123 (sha256:0a)''], Return ())"
  by (simp add: removeOrReportOrphanContainers_def stubbornDaemon_def defaultConfig_def
      abc123_def stoppedMessage_def Second_def)

lemma remove_without_client_panics:
  "removeOrReportOrphanContainers ''remove'' defaultConfig (None, Some ''no client'') [abc123] =
     ([LogCannotConnect ''no client'', LogStopping abc123], Panic)"
  by (simp add: removeOrReportOrphanContainers_def)

text \<open>
  The two failure paths differ. A failed list call of the runtime leaves no container to
  compare, so the pass finds no orphan; and the container that a failed pods call makes
  an orphan is none when the pods call answers.
\<close>

lemma runtime_failure_no_orphans:
  "executeCheck ''remove'' ''node1'' defaultConfig dockerDown =
     ([LogNoRunning ''daemon down'', LogNoOrphans], Return ())"
  by (simp add: executeCheck_def getPodContainers_def getDockerContainers_def
      compareContainerGroups_def dockerDown_def defaultConfig_def TrimPrefix_def)

lemma pods_answering_no_orphans:
  "executeCheck ''remove'' ''node1'' defaultConfig podsUp = ([LogNoOrphans], Return ())"
  by (simp add: executeCheck_def getPodContainers_def getDockerContainers_def
      compareContainerGroups_def podsUp_def podsDown_def daemon_def defaultConfig_def
      abc123_def TrimPrefix_def)

section \<open>The claims\<close>

text \<open>
  C1, as the specification states it: a record of the runtime inventory is an orphan if
  and only if no orchestrator identifier is contained as a substring of the record's
  identifier. The program tests the containment the other way round
  (\<^verbatim>\<open>strings.Contains(b, a)\<close> with \<^verbatim>\<open>b\<close> the orchestrator identifier and \<^verbatim>\<open>a\<close> the
  container's): with the orchestrator identifier \<^verbatim>\<open>abc\<close>, a substring of
  \<^verbatim>\<open>abc123\<close>, the container \<^verbatim>\<open>abc123\<close> is an orphan all the same.
\<close>

theorem C1_stated_direction_fails:
  "\<not> (abc123 \<in> set (orphansOf id [abc123] [''abc'']) \<longleftrightarrow> \<not> sublist ''abc'' (ID abc123))"
  by (simp add: orphansOf_filter abc123_def Contains_iff_sublist [symmetric])

text \<open>
  C1, amended: a record \<open>c\<close> of the runtime inventory \<open>R\<close> is in the orphan set if and
  only if the identifier of \<open>c\<close> is a substring of no orchestrator identifier of \<open>K\<close>;
  in particular, if the identifier of every element of \<open>R\<close> is a substring of some
  identifier of \<open>K\<close>, the orphan set is empty.
\<close>

theorem C1_orphan_iff:
  "(c \<in> set R \<longrightarrow>
      (c \<in> set (orphansOf since R K) \<longleftrightarrow> \<not> (\<exists>k \<in> set K. sublist (ID c) k)))
   \<and> ((\<forall>c \<in> set R. \<exists>k \<in> set K. sublist (ID c) k) \<longrightarrow> orphansOf since R K = [])"
  by (auto simp add: orphansOf_filter stringInSlice_iff Contains_iff_sublist filter_empty_conv)

theorem C1_orphan_iff_witness:
  "def456 \<in> set [abc123, def456]
   \<and> (def456 \<in> set (orphansOf id [abc123, def456] [''docker://abc123'']))
   \<and> \<not> (\<exists>k \<in> set [''docker://abc123'']. sublist (ID def456) k)
   \<and> sublist (ID abc123) ''docker://abc123''
   \<and> orphansOf id [abc123] [''docker://abc123''] = []"
  using C1_orphan_iff [of def456 "[abc123, def456]" id "[''docker://abc123'']"]
    C1_orphan_iff [of abc123 "[abc123]" id "[''docker://abc123'']"]
  by (simp add: abc123_def def456_def Contains_iff_sublist [symmetric])

text \<open>
  C2: when the pods call fails, the orchestrator inventory fetcher logs the error and
  returns an empty identifier list, and the pass completes, degraded to zero orphans
  observed. The program does the first half only. In the pass \<open>podsDown\<close> the fetcher
  logs the error and returns the empty list, and the pass returns; but the list of the
  failed call is then used as the inventory of the node, so the reconciler finds no
  identifier for the running container \<^verbatim>\<open>abc123\<close>: it is reported as dangling, and in
  \<^verbatim>\<open>remove\<close> mode it is stopped.
\<close>

theorem C2_pods_failure_orphans_all:
  "getPodContainers ''node1'' (podsList podsDown) = ([LogListPods ''connection refused''], Return [])
   \<and> executeCheck ''watch'' ''node1'' defaultConfig podsDown =
       ([LogListPods ''connection refused'', LogOrphanFound ''abc123'' ''nginx'' 0,
         LogObserving abc123, Send ''Dangling container found: abc123 (sha256:0a)''], Return ())
   \<and> stopCalls (fst (executeCheck ''remove'' ''node1'' defaultConfig podsDown)) =
       [(''abc123'', 30000000000)]"
  by (simp add: executeCheck_def getPodContainers_def getDockerContainers_def
      compareContainerGroups_def removeOrReportOrphanContainers_def podsDown_def daemon_def
      defaultConfig_def abc123_def foundMessage_def stoppedMessage_def Second_def)

text \<open>
  C3: in \<^verbatim>\<open>watch\<close> mode, whatever the orphans and whatever client
  \<^verbatim>\<open>NewEnvClient\<close> yields, the dispatcher issues no stop call. Its effects are the
  line logged when the client could not be built, if so, and then for each orphan, in
  order, one log line and the message "Dangling container found: id (image-id)".
\<close>

theorem C3_watch_never_stops:
  "removeOrReportOrphanContainers ''watch'' config (cli, err) orphans =
     ((case err of Some e \<Rightarrow> [LogCannotConnect e] | None \<Rightarrow> [])
        @ concat (map (\<lambda>c. [LogObserving c, Send (foundMessage c)]) orphans), Return ())
   \<and> stopCalls (fst (removeOrReportOrphanContainers ''watch'' config (cli, err) orphans)) = []
   \<and> sent (fst (removeOrReportOrphanContainers ''watch'' config (cli, err) orphans)) =
       map (\<lambda>c. ''Dangling container found: '' @ ID c @ '' ('' @ ImageID c @ '')'') orphans"
  by (simp add: removeOrReportOrphanContainers_def dispatchLoop_report stopCalls_append
      sent_append stopCalls_report sent_report connectLog_quiet foundMessage_def)

text \<open>
  C4: in \<^verbatim>\<open>remove\<close> mode, with a runtime client, the stop calls of the dispatcher are
  one per orphan, in order, each for that orphan's identifier and each with the timeout
  \<^verbatim>\<open>time.Duration(config.Timing.StopTimeout) * time.Second\<close>; the multiplication does
  not wrap, so the timeout is \<^verbatim>\<open>stop_timeout\<close> seconds in nanoseconds; and the
  dispatcher returns.
\<close>

theorem C4_remove_one_stop_each:
  "stopCalls (fst (removeOrReportOrphanContainers ''remove'' config (Some client, err) orphans)) =
     map (\<lambda>c. (ID c, ucast (StopTimeout (Timing config)) * Second)) orphans
   \<and> sint (ucast (StopTimeout (Timing config)) * Second :: 64 word) =
       uint (StopTimeout (Timing config)) * 1000000000
   \<and> snd (removeOrReportOrphanContainers ''remove'' config (Some client, err) orphans) = Return ()"
  by (simp add: removeOrReportOrphanContainers_def dispatchLoop_remove stopCalls_append
      stopCalls_remove connectLog_quiet sint_seconds)

text \<open>
  C5: in \<^verbatim>\<open>remove\<close> mode, with a runtime client, each orphan is logged, stopped and
  then notified with "Dangling container stopped: id (image-id)". The message does not
  depend on what the stop call answered: the messages are the same for any two clients.
\<close>

theorem C5_remove_message_whatever_stop:
  "removeOrReportOrphanContainers ''remove'' config (Some client, err) orphans =
     ((case err of Some e \<Rightarrow> [LogCannotConnect e] | None \<Rightarrow> [])
        @ concat (map (\<lambda>c. [LogStopping c,
                   CallContainerStop (ID c) (ucast (StopTimeout (Timing config)) * Second)
                     (ContainerStop client (ID c)),
                   Send (stoppedMessage c)]) orphans), Return ())
   \<and> sent (fst (removeOrReportOrphanContainers ''remove'' config (Some client, err) orphans)) =
       map (\<lambda>c. ''Dangling container stopped: '' @ ID c @ '' ('' @ ImageID c @ '')'') orphans
   \<and> sent (fst (removeOrReportOrphanContainers ''remove'' config (Some client, err) orphans)) =
       sent (fst (removeOrReportOrphanContainers ''remove'' config (Some client', err') orphans))"
  by (simp add: removeOrReportOrphanContainers_def dispatchLoop_remove sent_append
      sent_remove connectLog_quiet stoppedMessage_def)

text \<open>
  C6: a container whose image reference contains a whitelist entry is not in the inventory
  the runtime fetcher returns, and so is not in the orphan set computed from that
  inventory, whatever the orchestrator identifiers are, the empty list included.
\<close>

theorem C6_whitelisted_never_orphan:
  "img \<in> set (Images (Whitelist config)) \<Longrightarrow> sublist img (Image c) \<Longrightarrow>
   getDockerContainers config new = (lg, Return filtered) \<Longrightarrow>
     c \<notin> set filtered \<and> c \<notin> set (orphansOf since filtered K) \<and> c \<notin> set (orphansOf since filtered [])"
  by (auto simp add: orphansOf_filter getDockerContainers_def filterLoop_filter Let_def
      Contains_iff_sublist split: prod.splits option.splits)

text \<open>C6 at the pause container of scenario B, listed beside \<^verbatim>\<open>def456\<close>.\<close>

theorem C6_whitelisted_never_orphan_witness:
  "''pause-amd64'' \<in> set (Images (Whitelist pauseConfig))
   \<and> sublist ''pause-amd64'' (Image pause)
   \<and> getDockerContainers pauseConfig (Some (daemon [pause, def456]), None) = ([], Return [def456])
   \<and> pause \<notin> set [def456]
   \<and> pause \<notin> set (orphansOf id [def456] [])"
  using C6_whitelisted_never_orphan [of "''pause-amd64''" pauseConfig pause
      "(Some (daemon [pause, def456]), None)" "[]" "[def456]" id "[]"]
  by (simp add: getDockerContainers_def daemon_def pauseConfig_def defaultConfig_def
      pause_def def456_def Contains_iff_sublist [symmetric])

text \<open>
  C7: every orphan is an element of the runtime inventory handed to the reconciler; and
  when that inventory is the one the runtime fetcher returned, no orphan has an image
  reference containing a whitelist entry.
\<close>

theorem C7_orphans_subset:
  "set (orphansOf since R K) \<subseteq> set R
   \<and> (getDockerContainers config new = (lg, Return R) \<longrightarrow>
        set (orphansOf since R K) \<subseteq>
          {c. \<not> (\<exists>img \<in> set (Images (Whitelist config)). sublist img (Image c))})"
  by (auto simp add: orphansOf_filter getDockerContainers_def filterLoop_filter Let_def
      Contains_iff_sublist split: prod.splits option.splits)

text \<open>C7 at scenario D, and at the fetch of the pause container beside \<^verbatim>\<open>def456\<close>.\<close>

theorem C7_orphans_subset_witness:
  "set (orphansOf id [abc123, def456] [''abc123'']) \<subseteq> set [abc123, def456]
   \<and> getDockerContainers pauseConfig (Some (daemon [pause, def456]), None) = ([], Return [def456])
   \<and> set (orphansOf id [def456] []) \<subseteq>
          {c. \<not> (\<exists>img \<in> set (Images (Whitelist pauseConfig)). sublist img (Image c))}"
  using C7_orphans_subset [of id "[abc123, def456]" "[''abc123'']" defaultConfig "(None, None)" "[]"]
    C7_orphans_subset [of id "[def456]" "[]" pauseConfig "(Some (daemon [pause, def456]), None)" "[]"]
  by (simp add: getDockerContainers_def daemon_def pauseConfig_def defaultConfig_def
      pause_def def456_def)

text \<open>
  C8: the orphan set depends on the two inventories only. Two runs on the same pair of
  inventories, each reading the clock for its log lines at its own time, return the same
  orphans; and reconciling the orphans themselves against the same identifiers returns
  them unchanged.
\<close>

theorem C8_orphans_deterministic:
  "orphansOf since R K = orphansOf since' R K
   \<and> orphansOf since' (orphansOf since R K) K = orphansOf since R K"
  by (simp add: orphansOf_filter)

text \<open>
  C9: for every mode other than \<^verbatim>\<open>remove\<close> the dispatcher does what it does in
  \<^verbatim>\<open>watch\<close> mode: no stop call, and the message "Dangling container found: id
  (image-id)" for each orphan.
\<close>

theorem C9_other_modes_watch:
  "modeFlag \<noteq> ''remove'' \<Longrightarrow>
     removeOrReportOrphanContainers modeFlag config new orphans =
       removeOrReportOrphanContainers ''watch'' config new orphans
     \<and> stopCalls (fst (removeOrReportOrphanContainers modeFlag config new orphans)) = []
     \<and> sent (fst (removeOrReportOrphanContainers modeFlag config new orphans)) =
         map (\<lambda>c. ''Dangling container found: '' @ ID c @ '' ('' @ ImageID c @ '')'') orphans"
  by (cases new)
    (simp add: removeOrReportOrphanContainers_def dispatchLoop_report stopCalls_append
      sent_append stopCalls_report sent_report connectLog_quiet foundMessage_def)

text \<open>C9 at the unrecognised mode \<^verbatim>\<open>delete\<close>.\<close>

theorem C9_other_modes_watch_witness:
  "''delete'' \<noteq> ''remove''
   \<and> removeOrReportOrphanContainers ''delete'' defaultConfig (Some (daemon []), None) [abc123] =
       removeOrReportOrphanContainers ''watch'' defaultConfig (Some (daemon []), None) [abc123]
   \<and> stopCalls (fst (removeOrReportOrphanContainers ''delete'' defaultConfig
         (Some (daemon []), None) [abc123])) = []
   \<and> sent (fst (removeOrReportOrphanContainers ''delete'' defaultConfig
         (Some (daemon []), None) [abc123])) = [''Dangling container found: abc123 (sha256:0a)'']"
  using C9_other_modes_watch [of "''delete''" defaultConfig "(Some (daemon []), None)" "[abc123]"]
  by (simp add: abc123_def removeOrReportOrphanContainers_def foundMessage_def)

text \<open>
  C10: when the orchestrator identifier list is not empty, a container with the empty
  identifier passes the membership test, since every string contains the empty string,
  and is not an orphan.
\<close>

theorem C10_empty_identifier_matched:
  "K \<noteq> [] \<Longrightarrow> ID c = [] \<Longrightarrow> stringInSlice (ID c) K \<and> c \<notin> set (orphansOf since R K)"
  by (cases K) (simp_all add: orphansOf_filter Contains_empty)

text \<open>C10 at a container without identifier beside \<^verbatim>\<open>def456\<close>.\<close>

theorem C10_empty_identifier_matched_witness:
  "[''abc123''] \<noteq> [] \<and> ID unnamed = [] \<and> stringInSlice (ID unnamed) [''abc123'']
   \<and> unnamed \<notin> set (orphansOf id [unnamed, def456] [''abc123''])"
  using C10_empty_identifier_matched [of "[''abc123'']" unnamed id "[unnamed, def456]"]
  by (simp add: unnamed_def)

end
